theory Spec2Isabelle
  imports Complex_Main
begin

section \<open>Arrays, errors and the approximate comparison\<close>

text \<open>
  The library works on small numpy arrays of floating-point numbers. The numbers are
  idealised as reals: rounding, NaN and infinities are outside this development, and
  every statement below is about exact arithmetic. Arrays keep their rank: a rank-0
  array is a number, a rank-1 array a list, a rank-2 array a list of rows (all of one
  length, as numpy arrays are rectangular), a rank-3 array a list of matrices.
\<close>

datatype error = ValueError | AssertionError | LinAlgError

datatype ndarray =
    Scalar real
  | Vec "real list"
  | Mat "real list list"
  | Ten "real list list list"

fun shape :: "ndarray \<Rightarrow> nat list" where
  "shape (Scalar x) = []"
| "shape (Vec v) = [length v]"
| "shape (Mat m) = [length m, (case m of [] \<Rightarrow> 0 | r # _ \<Rightarrow> length r)]"
| "shape (Ten t) =
     [length t,
      (case t of [] \<Rightarrow> 0 | m # _ \<Rightarrow> length m),
      (case t of [] \<Rightarrow> 0 | m # _ \<Rightarrow> (case m of [] \<Rightarrow> 0 | r # _ \<Rightarrow> length r))]"

fun flat :: "ndarray \<Rightarrow> real list" where
  "flat (Scalar x) = [x]"
| "flat (Vec v) = v"
| "flat (Mat m) = concat m"
| "flat (Ten t) = concat (map concat t)"

text \<open>Unary minus and \<open>np.sign\<close> act on every component of a rank-1 array.\<close>

definition neg :: "real list \<Rightarrow> real list" where
  "neg a = map uminus a"

definition sign :: "real list \<Rightarrow> real list" where
  "sign a = map sgn a"

text \<open>
  \<open>x != y\<close> on two rank-1 arrays compares component by component. numpy broadcasts an
  array of length one against the other array and raises \<open>ValueError\<close> for any other
  pair of different lengths.
\<close>

definition array_ne :: "real list \<Rightarrow> real list \<Rightarrow> error + bool list" where
  "array_ne x y =
     (if length x = length y then Inr (map2 (\<lambda>a b. a \<noteq> b) x y)
      else if length x = 1 then Inr (map (\<lambda>b. hd x \<noteq> b) y)
      else if length y = 1 then Inr (map (\<lambda>a. a \<noteq> hd y) x)
      else Inl ValueError)"

definition any :: "bool list \<Rightarrow> bool" where
  "any bs = list_ex (\<lambda>b. b) bs"

text \<open>
  \<open>numpy.testing.assert_array_almost_equal(x, y, decimal)\<close>: the shapes must agree,
  unless one side is a rank-0 array, which is compared with every component of the
  other side; then every pair of components must differ by less than
  \<open>1.5 * 10 ** (-decimal)\<close>. The keyword arguments the assertion helpers forward are
  represented by \<open>decimal\<close> (numpy's default is 6).
\<close>

definition tolerance :: "int \<Rightarrow> real" where
  "tolerance decimal =
     (if 0 \<le> decimal then 1.5 / 10 ^ nat decimal else 1.5 * 10 ^ nat (- decimal))"

definition close :: "int \<Rightarrow> real \<Rightarrow> real \<Rightarrow> bool" where
  "close decimal a b = (\<bar>b - a\<bar> < tolerance decimal)"

definition almost_equal :: "int \<Rightarrow> ndarray \<Rightarrow> ndarray \<Rightarrow> bool" where
  "almost_equal decimal x y =
     (case (x, y) of
        (Scalar a, _) \<Rightarrow> list_all (close decimal a) (flat y)
      | (_, Scalar b) \<Rightarrow> list_all (\<lambda>a. close decimal a b) (flat x)
      | _ \<Rightarrow> shape x = shape y \<and> list_all2 (close decimal) (flat x) (flat y))"

definition assert_array_almost_equal :: "int \<Rightarrow> ndarray \<Rightarrow> ndarray \<Rightarrow> error + unit" where
  "assert_array_almost_equal decimal x y =
     (if almost_equal decimal x y then Inr () else Inl AssertionError)"

section \<open>Linear algebra on arrays\<close>

text \<open>
  \<open>np.dot\<close> on two rank-1 arrays, on a matrix and a rank-1 array, and on two matrices;
  \<open>M.T\<close> is \<^const>\<open>transpose\<close>; \<open>np.eye(n)\<close> is the identity matrix.
\<close>

definition dot :: "real list \<Rightarrow> real list \<Rightarrow> real" where
  "dot u v = sum_list (map2 (*) u v)"

definition matvec :: "real list list \<Rightarrow> real list \<Rightarrow> real list" where
  "matvec A v = map (\<lambda>r. dot r v) A"

definition matmul :: "real list list \<Rightarrow> real list list \<Rightarrow> real list list" where
  "matmul A B = map (\<lambda>r. map (dot r) (transpose B)) A"

definition eye :: "nat \<Rightarrow> real list list" where
  "eye n = map (\<lambda>i. map (\<lambda>j. if i = j then 1 else 0) [0..<n]) [0..<n]"

text \<open>A list of rows is a numpy matrix when all rows have one length.\<close>

definition rectangular :: "real list list \<Rightarrow> bool" where
  "rectangular m = (case m of [] \<Rightarrow> True | r # rs \<Rightarrow> list_all (\<lambda>s. length s = length r) rs)"

text \<open>
  \<open>np.linalg.det\<close>: the determinant, here by expansion along the first row, and
  \<open>LinAlgError\<close> for a matrix that is not square. \<open>linalg_norm\<close> is the exact
  Euclidean norm of a rank-1 array, the number that \<open>np.linalg.norm\<close> rounds.
\<close>

fun det :: "real list list \<Rightarrow> real" where
  "det [] = 1"
| "det (r # rs) =
     (\<Sum>j\<leftarrow>[0..<length r]. (- 1) ^ j * r ! j * det (map (\<lambda>s. take j s @ drop (Suc j) s) rs))"

definition linalg_det :: "real list list \<Rightarrow> error + real" where
  "linalg_det m =
     (if list_all (\<lambda>r. length r = length m) m then Inr (det m) else Inl LinAlgError)"

definition linalg_norm :: "real list \<Rightarrow> real" where
  "linalg_norm a = sqrt (sum_list (map (\<lambda>x. x * x) a))"

section \<open>Rotation matrices and homogeneous transforms\<close>

text \<open>
  Modelled from the spec: the invariants of the data model, which no source file states
  as predicates. A rotation matrix is a 3x3 matrix \<open>R\<close> with \<open>R R\<^sup>T = I\<close> and
  determinant 1; a homogeneous transform is a 4x4 matrix whose upper left 3x3 block is
  a rotation matrix and whose last row is \<open>[0, 0, 0, 1]\<close>.
\<close>

definition rotation_block :: "real list list \<Rightarrow> real list list" where
  "rotation_block A = map (take 3) (take 3 A)"

definition translation_part :: "real list list \<Rightarrow> real list" where
  "translation_part A = map (\<lambda>r. r ! 3) (take 3 A)"

definition is_rotation_matrix :: "real list list \<Rightarrow> bool" where
  "is_rotation_matrix R \<longleftrightarrow>
     shape (Mat R) = [3, 3] \<and> rectangular R \<and> matmul R (transpose R) = eye 3 \<and> det R = 1"

definition is_transform :: "real list list \<Rightarrow> bool" where
  "is_transform A \<longleftrightarrow>
     shape (Mat A) = [4, 4] \<and> rectangular A \<and> A ! 3 = [0, 0, 0, 1] \<and>
     is_rotation_matrix (rotation_block A)"

section \<open>Transform algebra\<close>

text \<open>
  The module \<open>pytransform.transformations\<close> is known through its test suite and its
  description only; its four functions are modelled from that description.
\<close>

text \<open>
  Modelled from the spec: \<open>transform_from(R, p)\<close>, whose source is missing,
  "constructs the 4x4 homogeneous transform \<open>[[R, p], [0, 0, 0, 1]]\<close>" and does not
  validate \<open>R\<close>.
\<close>

definition transform_from :: "real list list \<Rightarrow> real list \<Rightarrow> real list list" where
  "transform_from R p = map2 (\<lambda>r x. r @ [x]) R p @ [[0, 0, 0, 1]]"

text \<open>
  Modelled from the spec: \<open>invert_transform(A2B)\<close>, whose source is missing, "fails
  with an invalid-argument error when the input is not a 4x4 matrix"; otherwise it
  extracts "rotation block R and translation p; the inverse transform has rotation
  \<open>R\<^sup>T\<close> and translation \<open>-R\<^sup>T p\<close>".
\<close>

definition invert_transform :: "ndarray \<Rightarrow> error + real list list" where
  "invert_transform A2B =
     (if shape A2B \<noteq> [4, 4] then Inl ValueError
      else (case A2B of
              Mat A \<Rightarrow>
                (let R = rotation_block A; p = translation_part A
                 in Inr (transform_from (transpose R) (neg (matvec (transpose R) p))))
            | _ \<Rightarrow> Inl ValueError))"

text \<open>
  Modelled from the spec: \<open>concat(A2B, B2C)\<close>, whose source is missing, is "defined as
  ordinary 4x4 matrix multiplication \<open>B2C @ A2B\<close>".
\<close>

definition concat_transforms :: "real list list \<Rightarrow> real list list \<Rightarrow> real list list" where
  "concat_transforms A2B B2C = matmul B2C A2B"

text \<open>
  Modelled from the spec: \<open>transform(A2B, PA)\<close>, whose source is missing, takes "either
  a single homogeneous 4-vector or a 2D array whose rows are homogeneous 4-vectors",
  returns "single vector in, single vector out; batch in, batch out, row-wise", and
  "fails with an invalid-argument error if the point argument's shape is neither".
\<close>

definition transform :: "real list list \<Rightarrow> ndarray \<Rightarrow> error + ndarray" where
  "transform A2B PA =
     (case PA of
        Vec p \<Rightarrow> if shape PA = [4] then Inr (Vec (matvec A2B p)) else Inl ValueError
      | Mat P \<Rightarrow>
          if shape PA = [length P, 4] then Inr (Mat (map (matvec A2B) P)) else Inl ValueError
      | _ \<Rightarrow> Inl ValueError)"

section \<open>Testing utilities for rotations\<close>

text \<open>
  \<open>_testing.py\<close> imports \<open>norm_axis_angle\<close> and \<open>norm_compact_axis_angle\<close> from
  \<open>_utils\<close> and \<open>matrix_from_euler_xyz\<close> and \<open>matrix_from_euler_zyx\<close> from
  \<open>_conversions\<close>. The assertion helpers are parametrised by these four functions.
\<close>

record helpers =
  norm_axis_angle :: "real list \<Rightarrow> real list"
  norm_compact_axis_angle :: "real list \<Rightarrow> real list"
  matrix_from_euler_xyz :: "real list \<Rightarrow> real list list"
  matrix_from_euler_zyx :: "real list \<Rightarrow> real list list"


text \<open>
  \<open>assert_compact_axis_angle_equal\<close>: the two norms are compared with \<open>np.pi\<close> by
  \<open>==\<close>; \<open>and\<close> evaluates the sign comparison only when both norms equal \<open>np.pi\<close>.
  Here the floating-point arithmetic matters. The components of an array are float64
  numbers, which are reals, and \<open>np.sign\<close>, unary minus and \<open>==\<close> on them are exact.
  \<open>np.linalg.norm\<close> is not: it returns a rounded result, which real arithmetic does
  not determine, so it is a parameter \<open>np_linalg_norm\<close> of the function. \<open>np.pi\<close> is
  the float64 number nearest to \<open>pi\<close>, the rational \<open>884279719003555 / 2 ^ 48\<close>.
\<close>

definition np_pi :: real where
  "np_pi = 884279719003555 / 281474976710656"

definition assert_compact_axis_angle_equal ::
  "(real list \<Rightarrow> real) \<Rightarrow> helpers \<Rightarrow> int \<Rightarrow> real list \<Rightarrow> real list \<Rightarrow> error + unit" where
  "assert_compact_axis_angle_equal np_linalg_norm h decimal a1 a2 =
     (let angle1 = np_linalg_norm a1; angle2 = np_linalg_norm a2
      in case (if \<bar>angle1\<bar> = np_pi \<and> \<bar>angle2\<bar> = np_pi
               then map_sum id any (array_ne (sign a1) (sign a2))
               else Inr False) of
           Inl e \<Rightarrow> Inl e
         | Inr flip \<Rightarrow>
             (let a1' = (if flip then neg a1 else a1)
              in assert_array_almost_equal decimal
                   (Vec (norm_compact_axis_angle h a1')) (Vec (norm_compact_axis_angle h a2))))"

text \<open>
  \<open>assert_quaternion_equal\<close>: the first comparison is tried; an \<open>AssertionError\<close>
  it raises is caught and the comparison with \<open>-q2\<close> decides.
\<close>

definition assert_quaternion_equal :: "int \<Rightarrow> real list \<Rightarrow> real list \<Rightarrow> error + unit" where
  "assert_quaternion_equal decimal q1 q2 =
     (case assert_array_almost_equal decimal (Vec q1) (Vec q2) of
        Inr u \<Rightarrow> Inr u
      | Inl AssertionError \<Rightarrow> assert_array_almost_equal decimal (Vec q1) (Vec (neg q2))
      | Inl e \<Rightarrow> Inl e)"


text \<open>
  \<open>assert_euler_xyz_equal\<close> and \<open>assert_euler_zyx_equal\<close>: \<open>warnings.warn\<close> adds a
  \<open>DeprecationWarning\<close> to the warnings issued so far, which are passed in and
  returned; then the two matrices are compared.
\<close>

datatype warning = DeprecationWarning string

definition warn :: "string \<Rightarrow> warning list \<Rightarrow> warning list" where
  "warn msg ws = ws @ [DeprecationWarning msg]"

definition assert_euler_xyz_equal ::
  "helpers \<Rightarrow> int \<Rightarrow> real list \<Rightarrow> real list \<Rightarrow> warning list \<Rightarrow> warning list \<times> (error + unit)" where
  "assert_euler_xyz_equal h decimal e_xyz1 e_xyz2 ws =
     (let ws' = warn ''assert_euler_xyz_equal will be removed in version 2.0.0'' ws;
          R1 = matrix_from_euler_xyz h e_xyz1;
          R2 = matrix_from_euler_xyz h e_xyz2
      in (ws', assert_array_almost_equal decimal (Mat R1) (Mat R2)))"

definition assert_euler_zyx_equal ::
  "helpers \<Rightarrow> int \<Rightarrow> real list \<Rightarrow> real list \<Rightarrow> warning list \<Rightarrow> warning list \<times> (error + unit)" where
  "assert_euler_zyx_equal h decimal e_zyx1 e_zyx2 ws =
     (let ws' = warn ''assert_euler_zyx_equal will be removed in version 2.0.0'' ws;
          R1 = matrix_from_euler_zyx h e_zyx1;
          R2 = matrix_from_euler_zyx h e_zyx2
      in (ws', assert_array_almost_equal decimal (Mat R1) (Mat R2)))"

text \<open>
  \<open>assert_rotation_matrix\<close>: the first assertion compares \<open>np.dot(R, R.T)\<close> with
  \<open>np.eye(3)\<close>; only when it passes is the determinant computed and compared with 1.
\<close>

definition assert_rotation_matrix :: "int \<Rightarrow> real list list \<Rightarrow> error + unit" where
  "assert_rotation_matrix decimal R =
     (case assert_array_almost_equal decimal (Mat (matmul R (transpose R))) (Mat (eye 3)) of
        Inl e \<Rightarrow> Inl e
      | Inr _ \<Rightarrow>
          (case linalg_det R of
             Inl e \<Rightarrow> Inl e
           | Inr d \<Rightarrow> assert_array_almost_equal decimal (Scalar d) (Scalar 1)))"

section \<open>An instance of the imported helpers\<close>

text \<open>
  Modelled from the spec: \<open>norm_axis_angle\<close>, \<open>norm_compact_axis_angle\<close>,
  \<open>matrix_from_euler_xyz\<close> and \<open>matrix_from_euler_zyx\<close>, whose sources are missing.
  The description says of them only "wrap angle into canonical range, renormalize axis"
  and "convert each triple to its equivalent rotation matrix using the matching
  convention". The functions below are one such choice: the angle is wrapped into
  \<open>(-pi, pi]\<close>, a negative angle is traded for the opposite axis, an array with angle
  0 or with a zero axis is sent to \<open>[1, 0, 0, 0]\<close> before any wrapping, and intrinsic
  Euler angles are products of the basic rotations. They serve to instantiate the helper
  parameters at concrete inputs; the general theorems hold for every instance.
\<close>

definition norm_angle :: "real \<Rightarrow> real" where
  "norm_angle a =
     (let r = a - 2 * pi * of_int \<lfloor>(a + pi) / (2 * pi)\<rfloor> in if r = - pi then pi else r)"

definition norm_axis_angle_inst :: "real list \<Rightarrow> real list" where
  "norm_axis_angle_inst a =
     (let angle = a ! 3; n = linalg_norm (take 3 a)
      in if angle = 0 \<or> n = 0 then [1, 0, 0, 0]
         else (let ax = map (\<lambda>x. x / n) (take 3 a); t = norm_angle angle
               in if t < 0 then neg ax @ [- t] else ax @ [t]))"

definition norm_compact_axis_angle_inst :: "real list \<Rightarrow> real list" where
  "norm_compact_axis_angle_inst a =
     (let angle = linalg_norm a
      in if angle = 0 then [0, 0, 0]
         else map (\<lambda>x. x / angle * norm_angle angle) a)"

definition rot_x :: "real \<Rightarrow> real list list" where
  "rot_x t = [[1, 0, 0], [0, cos t, - sin t], [0, sin t, cos t]]"

definition rot_y :: "real \<Rightarrow> real list list" where
  "rot_y t = [[cos t, 0, sin t], [0, 1, 0], [- sin t, 0, cos t]]"

definition rot_z :: "real \<Rightarrow> real list list" where
  "rot_z t = [[cos t, - sin t, 0], [sin t, cos t, 0], [0, 0, 1]]"

definition matrix_from_euler_xyz_inst :: "real list \<Rightarrow> real list list" where
  "matrix_from_euler_xyz_inst e = matmul (rot_x (e ! 0)) (matmul (rot_y (e ! 1)) (rot_z (e ! 2)))"

definition matrix_from_euler_zyx_inst :: "real list \<Rightarrow> real list list" where
  "matrix_from_euler_zyx_inst e = matmul (rot_z (e ! 0)) (matmul (rot_y (e ! 1)) (rot_x (e ! 2)))"

definition helpers_inst :: helpers where
  "helpers_inst =
     \<lparr>norm_axis_angle = norm_axis_angle_inst,
      norm_compact_axis_angle = norm_compact_axis_angle_inst,
      matrix_from_euler_xyz = matrix_from_euler_xyz_inst,
      matrix_from_euler_zyx = matrix_from_euler_zyx_inst\<rparr>"

section \<open>Properties of the comparison\<close>

lemma tolerance_pos: "0 < tolerance decimal"
  by (simp add: tolerance_def)

lemma close_refl: "close decimal a a"
  by (simp add: close_def tolerance_pos)

lemma almost_equal_Vec:
  "almost_equal decimal (Vec x) (Vec y) \<longleftrightarrow>
     length x = length y \<and> list_all2 (close decimal) x y"
  by (simp add: almost_equal_def)

lemma almost_equal_Vec_refl: "almost_equal decimal (Vec x) (Vec x)"
  by (simp add: almost_equal_Vec list_all2_same close_refl)

lemma neg_neg: "neg (neg a) = a"
  by (simp add: neg_def comp_def)

lemma assert_same: "assert_array_almost_equal decimal (Vec x) (Vec x) = Inr ()"
  by (simp add: assert_array_almost_equal_def almost_equal_Vec_refl)

lemma length_neg: "length (neg a) = length a"
  by (simp add: neg_def)


lemma any_map2_ne: "length x = length y \<Longrightarrow> any (map2 (\<lambda>a b. a \<noteq> b) x y) \<longleftrightarrow> x \<noteq> y"
  by (induction x y rule: list_induct2) (auto simp: any_def)

lemma array_ne_same_length:
  "length x = length y \<Longrightarrow> array_ne x y = Inr (map2 (\<lambda>a b. a \<noteq> b) x y)"
  by (simp add: array_ne_def)


section \<open>Quaternion comparison\<close>

lemma assert_quaternion_equal_cases:
  "assert_quaternion_equal decimal q1 q2 =
     (if almost_equal decimal (Vec q1) (Vec q2) \<or> almost_equal decimal (Vec q1) (Vec (neg q2))
      then Inr () else Inl AssertionError)"
  by (simp add: assert_quaternion_equal_def assert_array_almost_equal_def)

text \<open>
  Claim C5. \<open>assert_quaternion_equal(q1, q2)\<close> raises an \<open>AssertionError\<close> exactly when
  \<open>q1\<close> is approximately equal neither to \<open>q2\<close> nor to \<open>-q2\<close>, it raises nothing else,
  and \<open>assert_quaternion_equal(q, -q)\<close> returns normally for every \<open>q\<close>, so for every
  unit quaternion.
\<close>

theorem assert_quaternion_equal_raises_iff:
  "(assert_quaternion_equal decimal q1 q2 = Inl AssertionError \<longleftrightarrow>
      \<not> almost_equal decimal (Vec q1) (Vec q2) \<and>
      \<not> almost_equal decimal (Vec q1) (Vec (neg q2))) \<and>
   (assert_quaternion_equal decimal q1 q2 \<noteq> Inl AssertionError \<longleftrightarrow>
      assert_quaternion_equal decimal q1 q2 = Inr ()) \<and>
   assert_quaternion_equal decimal q (neg q) = Inr ()"
  by (simp add: assert_quaternion_equal_cases neg_neg almost_equal_Vec_refl)

theorem assert_quaternion_equal_raises_iff_witness:
  "assert_quaternion_equal 6 [1, 0, 0, 0] [0, 1, 0, 0] = Inl AssertionError \<and>
   assert_quaternion_equal 6 [0, 1, 0, 0] (neg [0, 1, 0, 0]) = Inr ()"
  using assert_quaternion_equal_raises_iff [of 6 "[1, 0, 0, 0]" "[0, 1, 0, 0]" "[0, 1, 0, 0]"]
  by (simp add: almost_equal_Vec close_def tolerance_def neg_def)

text \<open>
  Claim C10. \<open>assert_quaternion_equal\<close> neither checks nor restores unit norm:
  \<open>assert_quaternion_equal(q, q)\<close> returns normally for every array \<open>q\<close>, the zero
  quaternion included; the outcome for a pair is decided by the component-wise
  comparison of \<open>q1\<close> with \<open>q2\<close> and with \<open>-q2\<close> alone; and two arrays that differ by
  a positive factor, which a normalisation would identify, are reported as different.
\<close>

theorem assert_quaternion_equal_no_normalization:
  "assert_quaternion_equal decimal q q = Inr () \<and>
   (assert_quaternion_equal decimal q1 q2 = Inr () \<longleftrightarrow>
      (length q1 = length q2 \<and> list_all2 (close decimal) q1 q2) \<or>
      (length q1 = length q2 \<and> list_all2 (close decimal) q1 (neg q2))) \<and>
   assert_quaternion_equal 6 [0, 0, 0, 0] [0, 0, 0, 0] = Inr () \<and>
   assert_quaternion_equal 6 [2, 0, 0, 0] [1, 0, 0, 0] = Inl AssertionError"
proof (intro conjI)
  show "assert_quaternion_equal decimal q q = Inr ()"
    by (simp add: assert_quaternion_equal_cases almost_equal_Vec_refl)
  show "assert_quaternion_equal decimal q1 q2 = Inr () \<longleftrightarrow>
      (length q1 = length q2 \<and> list_all2 (close decimal) q1 q2) \<or>
      (length q1 = length q2 \<and> list_all2 (close decimal) q1 (neg q2))"
    by (simp add: assert_quaternion_equal_cases almost_equal_Vec length_neg)
  show "assert_quaternion_equal 6 [0, 0, 0, 0] [0, 0, 0, 0] = Inr ()"
    by (simp add: assert_quaternion_equal_cases almost_equal_Vec_refl)
  show "assert_quaternion_equal 6 [2, 0, 0, 0] [1, 0, 0, 0] = Inl AssertionError"
    by (simp add: assert_quaternion_equal_cases almost_equal_Vec close_def tolerance_def neg_def)
qed

theorem assert_quaternion_equal_no_normalization_witness:
  "assert_quaternion_equal 6 [3, 4, 0, 0] [3, 4, 0, 0] = Inr () \<and>
   assert_quaternion_equal 6 [3, 4, 0, 0] [-3, -4, 0, 0] = Inr ()"
  using assert_quaternion_equal_no_normalization [of 6 "[3, 4, 0, 0]" "[3, 4, 0, 0]" "[-3, -4, 0, 0]"]
  by (simp add: neg_def close_def tolerance_def)

section \<open>Axis-angle comparison\<close>






lemma sign_ne_iff:
  assumes "length a1 = length a2"
  shows "sign a1 \<noteq> sign a2 \<longleftrightarrow> (\<exists>i<length a1. sgn (a1 ! i) \<noteq> sgn (a2 ! i))"
  using assms by (auto simp: sign_def list_eq_iff_nth_eq)













section \<open>Compact axis-angle comparison\<close>

lemma np_pi_pos: "0 < np_pi"
  by (simp add: np_pi_def)

lemma assert_compact_axis_angle_equal_unfold:
  assumes "length a1 = length a2"
  shows "assert_compact_axis_angle_equal nrm h decimal a1 a2 =
     assert_array_almost_equal decimal
       (Vec (norm_compact_axis_angle h
          (if \<bar>nrm a1\<bar> = np_pi \<and> \<bar>nrm a2\<bar> = np_pi \<and>
              (\<exists>i<length a1. sgn (a1 ! i) \<noteq> sgn (a2 ! i))
           then map uminus a1 else a1)))
       (Vec (norm_compact_axis_angle h a2))"
proof -
  have "length (sign a1) = length (sign a2)"
    using assms by (simp add: sign_def)
  then have "assert_compact_axis_angle_equal nrm h decimal a1 a2 =
     assert_array_almost_equal decimal
       (Vec (norm_compact_axis_angle h
          (if \<bar>nrm a1\<bar> = np_pi \<and> \<bar>nrm a2\<bar> = np_pi \<and> sign a1 \<noteq> sign a2
           then neg a1 else a1)))
       (Vec (norm_compact_axis_angle h a2))"
    by (simp add: assert_compact_axis_angle_equal_def Let_def array_ne_same_length any_map2_ne)
  then show ?thesis
    by (simp only: sign_ne_iff [OF assms] neg_def)
qed

lemma assert_compact_axis_angle_equal_no_flip:
  assumes "\<bar>nrm a1\<bar> \<noteq> np_pi \<or> \<bar>nrm a2\<bar> \<noteq> np_pi"
  shows "assert_compact_axis_angle_equal nrm h decimal a1 a2 =
     assert_array_almost_equal decimal
       (Vec (norm_compact_axis_angle h a1)) (Vec (norm_compact_axis_angle h a2))"
  using assms
  by (auto simp add: assert_compact_axis_angle_equal_def Let_def)

text \<open>
  Claim C7. For two arrays of one length, \<open>assert_compact_axis_angle_equal(a1, a2)\<close>
  compares the normalised \<open>-a1\<close> with the normalised \<open>a2\<close> exactly when the float64
  norm of \<open>a1\<close> equals \<open>np.pi\<close>, the float64 norm of \<open>a2\<close> equals \<open>np.pi\<close> (both by
  \<open>==\<close>, against the float64 number \<open>np.pi\<close> and not against \<open>pi\<close>) and some
  component of \<open>a1\<close> and the same component of \<open>a2\<close> differ in sign; in every other
  case it compares the normalised \<open>a1\<close> with the normalised \<open>a2\<close>. When one of the
  norms is not \<open>np.pi\<close>, the signs are not even looked at.
\<close>

theorem assert_compact_axis_angle_equal_policy:
  "(length a1 = length a2 \<longrightarrow>
      assert_compact_axis_angle_equal nrm h decimal a1 a2 =
        assert_array_almost_equal decimal
          (Vec (norm_compact_axis_angle h
             (if \<bar>nrm a1\<bar> = np_pi \<and> \<bar>nrm a2\<bar> = np_pi \<and>
                 (\<exists>i<length a1. sgn (a1 ! i) \<noteq> sgn (a2 ! i))
              then map uminus a1 else a1)))
          (Vec (norm_compact_axis_angle h a2))) \<and>
   (\<bar>nrm a1\<bar> \<noteq> np_pi \<or> \<bar>nrm a2\<bar> \<noteq> np_pi \<longrightarrow>
      assert_compact_axis_angle_equal nrm h decimal a1 a2 =
        assert_array_almost_equal decimal
          (Vec (norm_compact_axis_angle h a1)) (Vec (norm_compact_axis_angle h a2)))"
  using assert_compact_axis_angle_equal_unfold [of a1 a2 nrm h decimal]
    assert_compact_axis_angle_equal_no_flip [of nrm a1 a2 h decimal]
  by blast

lemma linalg_norm_np_pi:
  "\<bar>linalg_norm [np_pi, 0, 0]\<bar> = np_pi" "\<bar>linalg_norm [- np_pi, 0, 0]\<bar> = np_pi"
  "\<bar>linalg_norm [1, 0, 0]\<bar> \<noteq> np_pi"
  using np_pi_pos by (simp_all add: linalg_norm_def) (simp add: np_pi_def)

theorem assert_compact_axis_angle_equal_policy_witness:
  "length [np_pi, 0, 0] = length [- np_pi, 0, 0] \<and>
   \<bar>linalg_norm [np_pi, 0, 0]\<bar> = np_pi \<and> \<bar>linalg_norm [- np_pi, 0, 0]\<bar> = np_pi \<and>
   assert_compact_axis_angle_equal linalg_norm helpers_inst 6 [np_pi, 0, 0] [- np_pi, 0, 0] =
     Inr () \<and>
   \<bar>linalg_norm [1, 0, 0]\<bar> \<noteq> np_pi \<and>
   assert_compact_axis_angle_equal linalg_norm helpers_inst 6 [1, 0, 0] [- np_pi, 0, 0] =
     assert_array_almost_equal 6
       (Vec (norm_compact_axis_angle helpers_inst [1, 0, 0]))
       (Vec (norm_compact_axis_angle helpers_inst [- np_pi, 0, 0]))"
proof -
  note p1 = assert_compact_axis_angle_equal_policy
      [of "[np_pi, 0, 0]" "[- np_pi, 0, 0]" linalg_norm helpers_inst 6]
  note p2 = assert_compact_axis_angle_equal_policy
      [of "[1, 0, 0]" "[- np_pi, 0, 0]" linalg_norm helpers_inst 6]
  have l: "length [np_pi, 0, 0] = length [- np_pi, 0, 0]" by simp
  have d: "\<exists>i<length [np_pi, 0, 0]. sgn ([np_pi, 0, 0] ! i) \<noteq> sgn ([- np_pi, 0, 0] ! i)"
    using np_pi_pos by (intro exI [of _ 0]) (simp add: sgn_if)
  from p1 l have "assert_compact_axis_angle_equal linalg_norm helpers_inst 6
       [np_pi, 0, 0] [- np_pi, 0, 0] =
     assert_array_almost_equal 6
       (Vec (norm_compact_axis_angle helpers_inst
          (if \<bar>linalg_norm [np_pi, 0, 0]\<bar> = np_pi \<and> \<bar>linalg_norm [- np_pi, 0, 0]\<bar> = np_pi \<and>
              (\<exists>i<length [np_pi, 0, 0]. sgn ([np_pi, 0, 0] ! i) \<noteq> sgn ([- np_pi, 0, 0] ! i))
           then map uminus [np_pi, 0, 0] else [np_pi, 0, 0])))
       (Vec (norm_compact_axis_angle helpers_inst [- np_pi, 0, 0]))"
    by blast
  with d linalg_norm_np_pi(1,2)
  have 1: "assert_compact_axis_angle_equal linalg_norm helpers_inst 6
       [np_pi, 0, 0] [- np_pi, 0, 0] = Inr ()"
    by (simp add: assert_same)
  from p2 linalg_norm_np_pi(3)
  have 2: "assert_compact_axis_angle_equal linalg_norm helpers_inst 6 [1, 0, 0] [- np_pi, 0, 0] =
     assert_array_almost_equal 6
       (Vec (norm_compact_axis_angle helpers_inst [1, 0, 0]))
       (Vec (norm_compact_axis_angle helpers_inst [- np_pi, 0, 0]))"
    by blast
  from l 1 2 linalg_norm_np_pi show ?thesis by blast
qed

section \<open>Euler angle comparison\<close>

text \<open>
  Claim C9. Every call of \<open>assert_euler_xyz_equal\<close> and of \<open>assert_euler_zyx_equal\<close>
  adds one \<open>DeprecationWarning\<close> to the warnings issued so far; the outcome is that of
  comparing the two matrices obtained with the conversion of the same convention; and
  the call returns normally whenever these two matrices are approximately equal.
\<close>

theorem assert_euler_equal_policy:
  "fst (assert_euler_xyz_equal h decimal e1 e2 ws) =
     ws @ [DeprecationWarning ''assert_euler_xyz_equal will be removed in version 2.0.0''] \<and>
   snd (assert_euler_xyz_equal h decimal e1 e2 ws) =
     assert_array_almost_equal decimal
       (Mat (matrix_from_euler_xyz h e1)) (Mat (matrix_from_euler_xyz h e2)) \<and>
   (almost_equal decimal (Mat (matrix_from_euler_xyz h e1)) (Mat (matrix_from_euler_xyz h e2)) \<longrightarrow>
      snd (assert_euler_xyz_equal h decimal e1 e2 ws) = Inr ()) \<and>
   fst (assert_euler_zyx_equal h decimal e1 e2 ws) =
     ws @ [DeprecationWarning ''assert_euler_zyx_equal will be removed in version 2.0.0''] \<and>
   snd (assert_euler_zyx_equal h decimal e1 e2 ws) =
     assert_array_almost_equal decimal
       (Mat (matrix_from_euler_zyx h e1)) (Mat (matrix_from_euler_zyx h e2)) \<and>
   (almost_equal decimal (Mat (matrix_from_euler_zyx h e1)) (Mat (matrix_from_euler_zyx h e2)) \<longrightarrow>
      snd (assert_euler_zyx_equal h decimal e1 e2 ws) = Inr ())"
  by (simp add: assert_euler_xyz_equal_def assert_euler_zyx_equal_def warn_def Let_def
      assert_array_almost_equal_def)

lemma euler_inst_close:
  "almost_equal 6 (Mat (matrix_from_euler_xyz helpers_inst [0, 0, 0]))
     (Mat (matrix_from_euler_xyz helpers_inst [0, 0, 2 * pi])) \<and>
   almost_equal 6 (Mat (matrix_from_euler_zyx helpers_inst [0, 0, 0]))
     (Mat (matrix_from_euler_zyx helpers_inst [2 * pi, 0, 0]))"
  by (simp add: helpers_inst_def matrix_from_euler_xyz_inst_def matrix_from_euler_zyx_inst_def
      rot_x_def rot_y_def rot_z_def matmul_def dot_def almost_equal_def close_def tolerance_def)

theorem assert_euler_equal_policy_witness:
  "almost_equal 6 (Mat (matrix_from_euler_xyz helpers_inst [0, 0, 0]))
     (Mat (matrix_from_euler_xyz helpers_inst [0, 0, 2 * pi])) \<and>
   almost_equal 6 (Mat (matrix_from_euler_zyx helpers_inst [0, 0, 0]))
     (Mat (matrix_from_euler_zyx helpers_inst [2 * pi, 0, 0])) \<and>
   assert_euler_xyz_equal helpers_inst 6 [0, 0, 0] [0, 0, 2 * pi] [] =
     ([DeprecationWarning ''assert_euler_xyz_equal will be removed in version 2.0.0''], Inr ()) \<and>
   snd (assert_euler_zyx_equal helpers_inst 6 [0, 0, 0] [2 * pi, 0, 0] []) = Inr ()"
proof -
  note w = euler_inst_close
  note x = assert_euler_equal_policy [of helpers_inst 6 "[0, 0, 0]" "[0, 0, 2 * pi]" "[]"]
  note z = assert_euler_equal_policy [of helpers_inst 6 "[0, 0, 0]" "[2 * pi, 0, 0]" "[]"]
  have "snd (assert_euler_xyz_equal helpers_inst 6 [0, 0, 0] [0, 0, 2 * pi] []) = Inr ()"
    using x w by blast
  moreover have "fst (assert_euler_xyz_equal helpers_inst 6 [0, 0, 0] [0, 0, 2 * pi] []) =
      [] @ [DeprecationWarning ''assert_euler_xyz_equal will be removed in version 2.0.0'']"
    using x by blast
  ultimately have "assert_euler_xyz_equal helpers_inst 6 [0, 0, 0] [0, 0, 2 * pi] [] =
     ([DeprecationWarning ''assert_euler_xyz_equal will be removed in version 2.0.0''], Inr ())"
    by (simp add: prod_eq_iff)
  moreover have "snd (assert_euler_zyx_equal helpers_inst 6 [0, 0, 0] [2 * pi, 0, 0] []) = Inr ()"
    using z w by blast
  ultimately show ?thesis using w by blast
qed

section \<open>Matrices of fixed size\<close>

lemma list3: "length xs = 3 \<Longrightarrow> \<exists>a b c. xs = [a, b, c]"
  by (auto simp: numeral_3_eq_3 length_Suc_conv)

lemma list4: "length xs = 4 \<Longrightarrow> \<exists>a b c d. xs = [a, b, c, d]"
  by (auto simp: eval_nat_numeral length_Suc_conv)

lemma mat3_explicit:
  assumes "shape (Mat R) = [3, 3]" "rectangular R"
  shows "\<exists>a b c d e f g h i. R = [[a, b, c], [d, e, f], [g, h, i]]"
proof -
  from assms(1) have "length R = 3" by simp
  then obtain r1 r2 r3 where R: "R = [r1, r2, r3]" using list3 by blast
  with assms have "length r1 = 3" "length r2 = 3" "length r3 = 3"
    by (simp_all add: rectangular_def)
  then obtain a b c d e f g h i where "r1 = [a, b, c]" "r2 = [d, e, f]" "r3 = [g, h, i]"
    using list3 by metis
  with R show ?thesis by blast
qed

lemma mat4_explicit:
  assumes "shape (Mat A) = [4, 4]" "rectangular A"
  shows "\<exists>a11 a12 a13 a14 a21 a22 a23 a24 a31 a32 a33 a34 a41 a42 a43 a44.
    A = [[a11, a12, a13, a14], [a21, a22, a23, a24], [a31, a32, a33, a34], [a41, a42, a43, a44]]"
proof -
  from assms(1) have "length A = 4" by simp
  then obtain r1 r2 r3 r4 where A: "A = [r1, r2, r3, r4]" using list4 by blast
  with assms have "length r1 = 4" "length r2 = 4" "length r3 = 4" "length r4 = 4"
    by (simp_all add: rectangular_def)
  then obtain a11 a12 a13 a14 a21 a22 a23 a24 a31 a32 a33 a34 a41 a42 a43 a44 where
    "r1 = [a11, a12, a13, a14]" "r2 = [a21, a22, a23, a24]"
    "r3 = [a31, a32, a33, a34]" "r4 = [a41, a42, a43, a44]"
    using list4 by metis
  with A show ?thesis by blast
qed

lemma det3:
  "det [[a, b, c], [d, e, f], [g, h, i]] =
     a * (e * i - f * h) - b * (d * i - f * g) + c * (d * h - e * g)"
  by (simp add: upt_rec algebra_simps)

section \<open>Validity of a rotation matrix\<close>

lemma tolerance_le: "0 \<le> decimal \<Longrightarrow> tolerance decimal \<le> 3 / 2"
proof -
  assume "0 \<le> decimal"
  have "(1::real) \<le> 10 ^ nat decimal" by simp
  then have "1.5 / 10 ^ nat decimal \<le> (1.5::real) / 1"
    by (intro divide_left_mono) simp_all
  with \<open>0 \<le> decimal\<close> show ?thesis by (simp add: tolerance_def)
qed

lemma assert_rotation_matrix_cases:
  "assert_rotation_matrix decimal R =
     (if \<not> almost_equal decimal (Mat (matmul R (transpose R))) (Mat (eye 3)) then Inl AssertionError
      else case linalg_det R of Inl e \<Rightarrow> Inl e
           | Inr d \<Rightarrow> if close decimal d 1 then Inr () else Inl AssertionError)"
  by (simp add: assert_rotation_matrix_def assert_array_almost_equal_def almost_equal_def
       split: sum.splits)

lemma linalg_det_3x3:
  assumes "shape (Mat R) = [3, 3]" "rectangular R"
  shows "linalg_det R = Inr (det R)"
proof -
  from mat3_explicit [OF assms] obtain a b c d e f g h i
    where "R = [[a, b, c], [d, e, f], [g, h, i]]" by blast
  then show ?thesis by (simp add: linalg_det_def)
qed

lemma almost_equal_Mat_refl: "almost_equal decimal (Mat m) (Mat m)"
  by (simp add: almost_equal_def list_all2_same close_refl)

text \<open>
  Claim C8. \<open>assert_rotation_matrix(R)\<close> raises exactly when \<open>R R\<^sup>T\<close> is not
  approximately the 3x3 identity or the determinant is not approximately 1 (or cannot
  be computed, \<open>R\<close> not being square); for a 3x3 matrix the error is an
  \<open>AssertionError\<close>. With a non-negative \<open>decimal\<close> (numpy's default is 6) it raises for
  every 3x3 matrix that is orthogonal and has determinant -1.
\<close>

theorem assert_rotation_matrix_raises_iff:
  "(assert_rotation_matrix decimal R \<noteq> Inr () \<longleftrightarrow>
      \<not> almost_equal decimal (Mat (matmul R (transpose R))) (Mat (eye 3)) \<or>
      \<not> (\<exists>x. linalg_det R = Inr x \<and> close decimal x 1)) \<and>
   (shape (Mat R) = [3, 3] \<and> rectangular R \<longrightarrow>
      (assert_rotation_matrix decimal R = Inl AssertionError \<longleftrightarrow>
         \<not> almost_equal decimal (Mat (matmul R (transpose R))) (Mat (eye 3)) \<or>
         \<not> close decimal (det R) 1) \<and>
      (assert_rotation_matrix decimal R \<noteq> Inl AssertionError \<longleftrightarrow>
         assert_rotation_matrix decimal R = Inr ())) \<and>
   (shape (Mat R) = [3, 3] \<and> rectangular R \<and> matmul R (transpose R) = eye 3 \<and>
    det R = - 1 \<and> 0 \<le> decimal \<longrightarrow>
      assert_rotation_matrix decimal R = Inl AssertionError)"
proof (intro conjI impI)
  show "assert_rotation_matrix decimal R \<noteq> Inr () \<longleftrightarrow>
      \<not> almost_equal decimal (Mat (matmul R (transpose R))) (Mat (eye 3)) \<or>
      \<not> (\<exists>x. linalg_det R = Inr x \<and> close decimal x 1)"
    by (cases "linalg_det R") (simp_all add: assert_rotation_matrix_cases)
next
  assume "shape (Mat R) = [3, 3] \<and> rectangular R"
  then have d: "linalg_det R = Inr (det R)" by (simp add: linalg_det_3x3)
  show "assert_rotation_matrix decimal R = Inl AssertionError \<longleftrightarrow>
         \<not> almost_equal decimal (Mat (matmul R (transpose R))) (Mat (eye 3)) \<or>
         \<not> close decimal (det R) 1"
    by (simp add: assert_rotation_matrix_cases d)
  show "assert_rotation_matrix decimal R \<noteq> Inl AssertionError \<longleftrightarrow>
         assert_rotation_matrix decimal R = Inr ()"
    by (simp add: assert_rotation_matrix_cases d)
next
  assume a: "shape (Mat R) = [3, 3] \<and> rectangular R \<and> matmul R (transpose R) = eye 3 \<and>
    det R = - 1 \<and> 0 \<le> decimal"
  then have d: "linalg_det R = Inr (- 1)" using linalg_det_3x3 [of R] by simp
  from a have "0 \<le> decimal" by simp
  then have "tolerance decimal \<le> 3 / 2" by (rule tolerance_le)
  then have "\<not> close decimal (- 1) 1" by (simp add: close_def)
  then show "assert_rotation_matrix decimal R = Inl AssertionError"
    by (simp add: assert_rotation_matrix_cases d)
qed

lemma mirror_facts:
  "shape (Mat [[1, 0, 0], [0, 1, 0], [0, 0, - 1]]) = [3, 3] \<and>
   rectangular [[1, 0, 0], [0, 1, 0], [0, 0, - 1]] \<and>
   matmul [[1, 0, 0], [0, 1, 0], [0, 0, - 1]] (transpose [[1, 0, 0], [0, 1, 0], [0, 0, - 1]]) =
     eye 3 \<and>
   det [[1, 0, 0], [0, 1, 0], [0, 0, - 1]] = - 1"
  by (simp add: rectangular_def matmul_def dot_def eye_def upt_rec det3)

theorem assert_rotation_matrix_raises_iff_witness:
  "shape (Mat [[1, 0, 0], [0, 1, 0], [0, 0, - 1]]) = [3, 3] \<and>
   rectangular [[1, 0, 0], [0, 1, 0], [0, 0, - 1]] \<and>
   matmul [[1, 0, 0], [0, 1, 0], [0, 0, - 1]] (transpose [[1, 0, 0], [0, 1, 0], [0, 0, - 1]]) =
     eye 3 \<and>
   det [[1, 0, 0], [0, 1, 0], [0, 0, - 1]] = - 1 \<and> (0::int) \<le> 6 \<and>
   assert_rotation_matrix 6 [[1, 0, 0], [0, 1, 0], [0, 0, - 1]] = Inl AssertionError"
  using assert_rotation_matrix_raises_iff [of 6 "[[1, 0, 0], [0, 1, 0], [0, 0, - 1]]"]
    mirror_facts
  by simp

text \<open>
  The bound on \<open>decimal\<close> is needed: a negative \<open>decimal\<close> forwarded to the comparison
  makes the tolerance 15 or more, and the mirror image passes both checks.
\<close>

lemma assert_rotation_matrix_loose_tolerance:
  "assert_rotation_matrix (- 1) [[1, 0, 0], [0, 1, 0], [0, 0, - 1]] = Inr ()"
  using mirror_facts
  by (simp add: assert_rotation_matrix_cases almost_equal_Mat_refl linalg_det_def close_def
      tolerance_def)

section \<open>Shapes accepted by the transform functions\<close>

text \<open>
  Claim C3. \<open>invert_transform\<close> returns \<open>ValueError\<close>, and no matrix, for every array
  whose shape is not \<open>(4, 4)\<close>, the 3x3 identity among them; \<open>transform\<close> returns
  \<open>ValueError\<close>, and no points, for every point argument whose shape is neither \<open>(4,)\<close>
  nor \<open>(n, 4)\<close>, the zero array of shape \<open>(2, 2, 4)\<close> among them.
\<close>

theorem invalid_shapes_raise:
  "(shape A \<noteq> [4, 4] \<longrightarrow> invert_transform A = Inl ValueError) \<and>
   (shape PA \<noteq> [4] \<and> (\<forall>n. shape PA \<noteq> [n, 4]) \<longrightarrow> transform A2B PA = Inl ValueError) \<and>
   invert_transform (Mat (eye 3)) = Inl ValueError \<and>
   transform A2B (Ten (replicate 2 (replicate 2 (replicate 4 0)))) = Inl ValueError"
proof (intro conjI impI)
  show "invert_transform (Mat (eye 3)) = Inl ValueError"
    by (simp add: invert_transform_def eye_def upt_rec)
  show "transform A2B (Ten (replicate 2 (replicate 2 (replicate 4 0)))) = Inl ValueError"
    by (simp add: transform_def)
next
  assume "shape A \<noteq> [4, 4]"
  then show "invert_transform A = Inl ValueError"
    by (simp add: invert_transform_def)
next
  assume "shape PA \<noteq> [4] \<and> (\<forall>n. shape PA \<noteq> [n, 4])"
  then show "transform A2B PA = Inl ValueError"
    by (cases PA) (auto simp: transform_def)
qed

theorem invalid_shapes_raise_witness:
  "shape (Mat [[1, 0], [0, 1]]) \<noteq> [4, 4] \<and>
   invert_transform (Mat [[1, 0], [0, 1]]) = Inl ValueError \<and>
   shape (Vec [1, 2, 3]) \<noteq> [4] \<and> (\<forall>n. shape (Vec [1, 2, 3]) \<noteq> [n, 4]) \<and>
   transform (eye 4) (Vec [1, 2, 3]) = Inl ValueError"
  using invalid_shapes_raise [of "Mat [[1, 0], [0, 1]]" "Vec [1, 2, 3]" "eye 4"]
  by simp

section \<open>Transforming a batch of points\<close>

lemma rows_length4:
  assumes "shape (Mat P) = [length P, 4]" "rectangular P"
  shows "\<forall>r\<in>set P. length r = 4"
  using assms by (cases P) (auto simp: rectangular_def list_all_iff)

text \<open>
  Claim C4. For a 4x4 matrix \<open>A2B\<close> and a rank-2 array \<open>P\<close> of shape \<open>(n, 4)\<close>,
  \<open>transform(A2B, P)\<close> is a rank-2 array of the shape of \<open>P\<close> whose row \<open>i\<close> is the
  rank-1 array that \<open>transform(A2B, P[i])\<close> returns, itself of the shape of \<open>P[i]\<close>.
\<close>

theorem transform_batch_rowwise:
  assumes "shape (Mat A2B) = [4, 4]" "rectangular A2B"
    and "shape (Mat P) = [length P, 4]" "rectangular P"
  shows "\<exists>Q. transform A2B (Mat P) = Inr (Mat Q) \<and> shape (Mat Q) = shape (Mat P) \<and>
     (\<forall>i<length P. transform A2B (Vec (P ! i)) = Inr (Vec (Q ! i)) \<and>
        shape (Vec (Q ! i)) = shape (Vec (P ! i)))"
proof -
  from mat4_explicit [OF assms(1,2)] have lenA: "length A2B = 4" by auto
  have rows: "\<forall>r\<in>set P. length r = 4" using assms(3,4) by (rule rows_length4)
  let ?Q = "map (matvec A2B) P"
  have 1: "transform A2B (Mat P) = Inr (Mat ?Q)"
    using assms(3) by (simp add: transform_def)
  have lenQ: "\<And>r. length (matvec A2B r) = 4"
    by (simp add: matvec_def lenA)
  from assms(3) have "P \<noteq> []" by auto
  then have 2: "shape (Mat ?Q) = shape (Mat P)"
    using assms(3) by (cases P) (simp_all add: lenQ)
  have 3: "\<forall>i<length P. transform A2B (Vec (P ! i)) = Inr (Vec (?Q ! i)) \<and>
        shape (Vec (?Q ! i)) = shape (Vec (P ! i))"
    using rows by (simp add: transform_def lenQ)
  from 1 2 3 show ?thesis by blast
qed

theorem transform_batch_rowwise_witness:
  "shape (Mat [[1, 0, 0, 1], [0, 1, 0, 0], [0, 0, 1, 0], [0, 0, 0, 1]]) = [4, 4] \<and>
   rectangular [[1, 0, 0, 1], [0, 1, 0, 0], [0, 0, 1, 0], [0, 0, 0, 1]] \<and>
   shape (Mat [[1, 2, 3, 1], [2, 3, 4, 1]]) = [length [[1, 2, 3, 1], [2, 3, 4, 1 :: real]], 4] \<and>
   rectangular [[1, 2, 3, 1], [2, 3, 4, 1]] \<and>
   (\<exists>Q. transform [[1, 0, 0, 1], [0, 1, 0, 0], [0, 0, 1, 0], [0, 0, 0, 1]]
          (Mat [[1, 2, 3, 1], [2, 3, 4, 1]]) = Inr (Mat Q) \<and>
        transform [[1, 0, 0, 1], [0, 1, 0, 0], [0, 0, 1, 0], [0, 0, 0, 1]]
          (Vec [1, 2, 3, 1]) = Inr (Vec (Q ! 0)) \<and>
        transform [[1, 0, 0, 1], [0, 1, 0, 0], [0, 0, 1, 0], [0, 0, 0, 1]]
          (Vec [2, 3, 4, 1]) = Inr (Vec (Q ! 1)) \<and>
        Q = [[2, 2, 3, 1], [3, 3, 4, 1]])"
proof -
  have h: "shape (Mat [[1, 0, 0, 1], [0, 1, 0, 0], [0, 0, 1, 0], [0, 0, 0, 1]]) = [4, 4]"
    "rectangular [[1, 0, 0, 1], [0, 1, 0, 0], [0, 0, 1, 0], [0, 0, 0, 1]]"
    "shape (Mat [[1, 2, 3, 1], [2, 3, 4, 1]]) = [length [[1, 2, 3, 1], [2, 3, 4, 1 :: real]], 4]"
    "rectangular [[1, 2, 3, 1], [2, 3, 4, 1]]"
    by (simp_all add: rectangular_def)
  from transform_batch_rowwise [OF h] obtain Q where
    Q: "transform [[1, 0, 0, 1], [0, 1, 0, 0], [0, 0, 1, 0], [0, 0, 0, 1]]
          (Mat [[1, 2, 3, 1], [2, 3, 4, 1]]) = Inr (Mat Q)"
    and rows: "\<forall>i<length [[1, 2, 3, 1], [2, 3, 4, 1 :: real]].
       transform [[1, 0, 0, 1], [0, 1, 0, 0], [0, 0, 1, 0], [0, 0, 0, 1]]
          (Vec ([[1, 2, 3, 1], [2, 3, 4, 1]] ! i)) = Inr (Vec (Q ! i)) \<and>
        shape (Vec (Q ! i)) = shape (Vec ([[1, 2, 3, 1], [2, 3, 4, 1]] ! i))"
    by blast
  from rows have r0: "transform [[1, 0, 0, 1], [0, 1, 0, 0], [0, 0, 1, 0], [0, 0, 0, 1]]
          (Vec [1, 2, 3, 1]) = Inr (Vec (Q ! 0))"
    by (auto dest: spec [of _ 0])
  from rows have r1: "transform [[1, 0, 0, 1], [0, 1, 0, 0], [0, 0, 1, 0], [0, 0, 0, 1]]
          (Vec [2, 3, 4, 1]) = Inr (Vec (Q ! 1))"
    by (auto dest: spec [of _ 1])
  from Q have "Q = [[2, 2, 3, 1], [3, 3, 4, 1]]"
    by (simp add: transform_def matvec_def dot_def)
  with Q r0 r1 h show ?thesis by blast
qed

section \<open>Orthogonal matrices and explicit 4x4 products\<close>

lemma rows_orthonormal:
  assumes "matmul [[a, b, c], [d, e, f], [g, h, i]] (transpose [[a, b, c], [d, e, f], [g, h, i]]) = eye 3"
  shows "a * a + b * b + c * c = 1" "a * d + b * e + c * f = 0" "a * g + b * h + c * i = 0"
    "d * d + e * e + f * f = 1" "d * g + e * h + f * i = 0" "g * g + h * h + i * i = 1"
  using assms by (simp_all add: matmul_def dot_def eye_def upt_rec)

lemma transform_from_explicit:
  "transform_from [[a, b, c], [d, e, f], [g, h, i]] [x, y, z] =
     [[a, b, c, x], [d, e, f, y], [g, h, i, z], [0, 0, 0, 1]]"
  by (simp add: transform_from_def)

lemma invert_explicit:
  "invert_transform (Mat [[a, b, c, x], [d, e, f, y], [g, h, i, z], [m, n, k, l]]) =
     Inr [[a, d, g, - (a * x + d * y + g * z)],
          [b, e, h, - (b * x + e * y + h * z)],
          [c, f, i, - (c * x + f * y + i * z)],
          [0, 0, 0, 1]]"
  by (simp add: invert_transform_def rotation_block_def translation_part_def transform_from_def
      matvec_def dot_def neg_def)

lemma eye4: "eye 4 = [[1, 0, 0, 0], [0, 1, 0, 0], [0, 0, 1, 0], [0, 0, 0, 1]]"
  by (simp add: eye_def upt_rec)

text \<open>
  The rows of a 3x3 matrix with \<open>R R\<^sup>T = I\<close> are orthonormal; then so are its
  columns, that is \<open>R\<^sup>T R = I\<close>.
\<close>

lemma first_column:
  fixes a b c d e f g h i :: real
  assumes "a * a + b * b + c * c = 1" "a * d + b * e + c * f = 0" "a * g + b * h + c * i = 0"
    "d * d + e * e + f * f = 1" "d * g + e * h + f * i = 0" "g * g + h * h + i * i = 1"
  shows "a * a + d * d + g * g = 1" "a * b + d * e + g * h = 0" "a * c + d * f + g * i = 0"
  using assms by algebra+

lemma columns_orthonormal:
  fixes a b c d e f g h i :: real
  assumes "a * a + b * b + c * c = 1" "a * d + b * e + c * f = 0" "a * g + b * h + c * i = 0"
    "d * d + e * e + f * f = 1" "d * g + e * h + f * i = 0" "g * g + h * h + i * i = 1"
  shows "a * a + d * d + g * g = 1" "a * b + d * e + g * h = 0" "a * c + d * f + g * i = 0"
    "b * b + e * e + h * h = 1" "b * c + e * f + h * i = 0" "c * c + f * f + i * i = 1"
proof -
  show "a * a + d * d + g * g = 1" "a * b + d * e + g * h = 0" "a * c + d * f + g * i = 0"
    using assms by (rule first_column)+
  have cyc: "b * b + c * c + a * a = 1" "b * e + c * f + a * d = 0" "b * h + c * i + a * g = 0"
    "e * e + f * f + d * d = 1" "e * h + f * i + d * g = 0" "h * h + i * i + g * g = 1"
    using assms by linarith+
  from first_column(1) [OF cyc] show "b * b + e * e + h * h = 1" .
  from first_column(2) [OF cyc] show "b * c + e * f + h * i = 0" .
  have cyc2: "c * c + a * a + b * b = 1" "c * f + a * d + b * e = 0" "c * i + a * g + b * h = 0"
    "f * f + d * d + e * e = 1" "f * i + d * g + e * h = 0" "i * i + g * g + h * h = 1"
    using assms by linarith+
  from first_column(1) [OF cyc2] show "c * c + f * f + i * i = 1" .
qed

lemma matmul4:
  "matmul [[a11, a12, a13, a14], [a21, a22, a23, a24], [a31, a32, a33, a34], [a41, a42, a43, a44]]
          [[b11, b12, b13, b14], [b21, b22, b23, b24], [b31, b32, b33, b34], [b41, b42, b43, b44]] =
   [[a11 * b11 + a12 * b21 + a13 * b31 + a14 * b41, a11 * b12 + a12 * b22 + a13 * b32 + a14 * b42,
     a11 * b13 + a12 * b23 + a13 * b33 + a14 * b43, a11 * b14 + a12 * b24 + a13 * b34 + a14 * b44],
    [a21 * b11 + a22 * b21 + a23 * b31 + a24 * b41, a21 * b12 + a22 * b22 + a23 * b32 + a24 * b42,
     a21 * b13 + a22 * b23 + a23 * b33 + a24 * b43, a21 * b14 + a22 * b24 + a23 * b34 + a24 * b44],
    [a31 * b11 + a32 * b21 + a33 * b31 + a34 * b41, a31 * b12 + a32 * b22 + a33 * b32 + a34 * b42,
     a31 * b13 + a32 * b23 + a33 * b33 + a34 * b43, a31 * b14 + a32 * b24 + a33 * b34 + a34 * b44],
    [a41 * b11 + a42 * b21 + a43 * b31 + a44 * b41, a41 * b12 + a42 * b22 + a43 * b32 + a44 * b42,
     a41 * b13 + a42 * b23 + a43 * b33 + a44 * b43, a41 * b14 + a42 * b24 + a43 * b34 + a44 * b44]]"
  by (simp add: matmul_def dot_def)

text \<open>The product of \<open>[[R\<^sup>T, - R\<^sup>T p], [0, 1]]\<close> and \<open>[[R, p], [0, 1]]\<close>.\<close>

lemma inverse_left:
  fixes a b c d e f g h i x y z :: real
  assumes "a * a + d * d + g * g = 1" "a * b + d * e + g * h = 0" "a * c + d * f + g * i = 0"
    "b * b + e * e + h * h = 1" "b * c + e * f + h * i = 0" "c * c + f * f + i * i = 1"
  shows "matmul [[a, d, g, - (a * x + d * y + g * z)],
          [b, e, h, - (b * x + e * y + h * z)],
          [c, f, i, - (c * x + f * y + i * z)],
          [0, 0, 0, 1]] [[a, b, c, x], [d, e, f, y], [g, h, i, z], [0, 0, 0, 1]] = eye 4"
proof -
  have sym: "b * a + e * d + h * g = 0" "c * a + f * d + i * g = 0" "c * b + f * e + i * h = 0"
    using assms by (simp_all add: mult.commute)
  show ?thesis
    unfolding matmul4 eye4 using assms sym by simp
qed

lemma translation_cancel:
  fixes a b c d e f g h i x y z u v w p q r :: real
  assumes "u * a + v * b + w * c = p" "u * d + v * e + w * f = q" "u * g + v * h + w * i = r"
  shows "u * - (a * x + d * y + g * z) + v * - (b * x + e * y + h * z) +
         w * - (c * x + f * y + i * z) = - (p * x + q * y + r * z)"
  unfolding assms [symmetric] by (simp add: algebra_simps)

lemma inverse_right:
  fixes a b c d e f g h i x y z :: real
  assumes "a * a + b * b + c * c = 1" "a * d + b * e + c * f = 0" "a * g + b * h + c * i = 0"
    "d * d + e * e + f * f = 1" "d * g + e * h + f * i = 0" "g * g + h * h + i * i = 1"
  shows "matmul [[a, b, c, x], [d, e, f, y], [g, h, i, z], [0, 0, 0, 1]]
          [[a, d, g, - (a * x + d * y + g * z)],
          [b, e, h, - (b * x + e * y + h * z)],
          [c, f, i, - (c * x + f * y + i * z)],
          [0, 0, 0, 1]] = eye 4"
proof -
  have sym: "d * a + e * b + f * c = 0" "g * a + h * b + i * c = 0" "g * d + h * e + i * f = 0"
    using assms by (simp_all add: mult.commute)
  have t1: "a * - (a * x + d * y + g * z) + b * - (b * x + e * y + h * z) +
         c * - (c * x + f * y + i * z) = - (1 * x + 0 * y + 0 * z)"
    using assms(1,2,3) by (rule translation_cancel)
  have t2: "d * - (a * x + d * y + g * z) + e * - (b * x + e * y + h * z) +
         f * - (c * x + f * y + i * z) = - (0 * x + 1 * y + 0 * z)"
    using sym(1) assms(4,5) by (rule translation_cancel)
  have t3: "g * - (a * x + d * y + g * z) + h * - (b * x + e * y + h * z) +
         i * - (c * x + f * y + i * z) = - (0 * x + 0 * y + 1 * z)"
    using sym(2,3) assms(6) by (rule translation_cancel)
  show ?thesis
    unfolding matmul4 eye4 using assms sym t1 t2 t3 by simp
qed

lemma isometry:
  fixes b1 b2 b3 b4 b5 b6 b7 b8 b9 u1 u2 u3 v1 v2 v3 :: real
  assumes "b1 * b1 + b4 * b4 + b7 * b7 = 1" "b1 * b2 + b4 * b5 + b7 * b8 = 0"
    "b1 * b3 + b4 * b6 + b7 * b9 = 0" "b2 * b2 + b5 * b5 + b8 * b8 = 1"
    "b2 * b3 + b5 * b6 + b8 * b9 = 0" "b3 * b3 + b6 * b6 + b9 * b9 = 1"
  shows "(b1 * u1 + b2 * u2 + b3 * u3) * (b1 * v1 + b2 * v2 + b3 * v3) +
         (b4 * u1 + b5 * u2 + b6 * u3) * (b4 * v1 + b5 * v2 + b6 * v3) +
         (b7 * u1 + b8 * u2 + b9 * u3) * (b7 * v1 + b8 * v2 + b9 * v3) =
         u1 * v1 + u2 * v2 + u3 * v3"
proof -
  have "(b1 * u1 + b2 * u2 + b3 * u3) * (b1 * v1 + b2 * v2 + b3 * v3) +
         (b4 * u1 + b5 * u2 + b6 * u3) * (b4 * v1 + b5 * v2 + b6 * v3) +
         (b7 * u1 + b8 * u2 + b9 * u3) * (b7 * v1 + b8 * v2 + b9 * v3) =
        u1 * v1 * (b1 * b1 + b4 * b4 + b7 * b7) + u2 * v2 * (b2 * b2 + b5 * b5 + b8 * b8) +
        u3 * v3 * (b3 * b3 + b6 * b6 + b9 * b9) +
        (u1 * v2 + u2 * v1) * (b1 * b2 + b4 * b5 + b7 * b8) +
        (u1 * v3 + u3 * v1) * (b1 * b3 + b4 * b6 + b7 * b9) +
        (u2 * v3 + u3 * v2) * (b2 * b3 + b5 * b6 + b8 * b9)"
    by (simp add: algebra_simps)
  also have "\<dots> = u1 * v1 + u2 * v2 + u3 * v3"
    by (simp add: assms)
  finally show ?thesis .
qed

lemma inverse_of_product:
  fixes a1 a2 a3 a4 a5 a6 a7 a8 a9 s1 s2 s3 b1 b2 b3 b4 b5 b6 b7 b8 b9 t1 t2 t3 :: real
  assumes B: "b1 * b1 + b4 * b4 + b7 * b7 = 1" "b1 * b2 + b4 * b5 + b7 * b8 = 0"
    "b1 * b3 + b4 * b6 + b7 * b9 = 0" "b2 * b2 + b5 * b5 + b8 * b8 = 1"
    "b2 * b3 + b5 * b6 + b8 * b9 = 0" "b3 * b3 + b6 * b6 + b9 * b9 = 1"
  shows "invert_transform (Mat (matmul
           [[b1, b2, b3, t1], [b4, b5, b6, t2], [b7, b8, b9, t3], [0, 0, 0, 1]]
           [[a1, a2, a3, s1], [a4, a5, a6, s2], [a7, a8, a9, s3], [0, 0, 0, 1]])) =
         Inr (matmul
           [[a1, a4, a7, - (a1 * s1 + a4 * s2 + a7 * s3)],
            [a2, a5, a8, - (a2 * s1 + a5 * s2 + a8 * s3)],
            [a3, a6, a9, - (a3 * s1 + a6 * s2 + a9 * s3)],
            [0, 0, 0, 1]]
           [[b1, b4, b7, - (b1 * t1 + b4 * t2 + b7 * t3)],
            [b2, b5, b8, - (b2 * t1 + b5 * t2 + b8 * t3)],
            [b3, b6, b9, - (b3 * t1 + b6 * t2 + b9 * t3)],
            [0, 0, 0, 1]])"
proof -
  note iso = isometry [OF B]
  show ?thesis
    using iso [of a1 a4 a7 s1 s2 s3] iso [of a2 a5 a8 s1 s2 s3] iso [of a3 a6 a9 s1 s2 s3]
    by (simp add: matmul4 invert_explicit algebra_simps)
qed

lemma matvec4:
  "matvec [[a11, a12, a13, a14], [a21, a22, a23, a24], [a31, a32, a33, a34], [a41, a42, a43, a44]]
     [v1, v2, v3, v4] =
   [a11 * v1 + a12 * v2 + a13 * v3 + a14 * v4, a21 * v1 + a22 * v2 + a23 * v3 + a24 * v4,
    a31 * v1 + a32 * v2 + a33 * v3 + a34 * v4, a41 * v1 + a42 * v2 + a43 * v3 + a44 * v4]"
  by (simp add: matvec_def dot_def)

lemma matvec_matmul:
  assumes "shape (Mat X) = [4, 4]" "rectangular X" "shape (Mat Y) = [4, 4]" "rectangular Y"
    and "length v = 4"
  shows "matvec (matmul X Y) v = matvec X (matvec Y v)"
proof -
  from mat4_explicit [OF assms(1,2)] obtain x11 x12 x13 x14 x21 x22 x23 x24 x31 x32 x33 x34
      x41 x42 x43 x44 where X: "X = [[x11, x12, x13, x14], [x21, x22, x23, x24],
        [x31, x32, x33, x34], [x41, x42, x43, x44]]" by blast
  from mat4_explicit [OF assms(3,4)] obtain y11 y12 y13 y14 y21 y22 y23 y24 y31 y32 y33 y34
      y41 y42 y43 y44 where Y: "Y = [[y11, y12, y13, y14], [y21, y22, y23, y24],
        [y31, y32, y33, y34], [y41, y42, y43, y44]]" by blast
  from list4 [OF assms(5)] obtain v1 v2 v3 v4 where v: "v = [v1, v2, v3, v4]" by blast
  show ?thesis
    unfolding X Y v matmul4 matvec4 by (simp add: algebra_simps)
qed

lemma matvec_eye4: "length v = 4 \<Longrightarrow> matvec (eye 4) v = v"
  using list4 [of v] by (auto simp: eye4 matvec4)

lemma length_matvec: "length (matvec X v) = length X"
  by (simp add: matvec_def)

lemma is_transform_explicit:
  assumes "is_transform A"
  obtains a1 a2 a3 a4 a5 a6 a7 a8 a9 s1 s2 s3 where
    "A = [[a1, a2, a3, s1], [a4, a5, a6, s2], [a7, a8, a9, s3], [0, 0, 0, 1]]"
    "a1 * a1 + a2 * a2 + a3 * a3 = 1" "a1 * a4 + a2 * a5 + a3 * a6 = 0"
    "a1 * a7 + a2 * a8 + a3 * a9 = 0" "a4 * a4 + a5 * a5 + a6 * a6 = 1"
    "a4 * a7 + a5 * a8 + a6 * a9 = 0" "a7 * a7 + a8 * a8 + a9 * a9 = 1"
proof -
  from assms have sh: "shape (Mat A) = [4, 4]" "rectangular A" and last: "A ! 3 = [0, 0, 0, 1]"
    and rot: "is_rotation_matrix (rotation_block A)"
    by (simp_all add: is_transform_def)
  from mat4_explicit [OF sh] obtain a1 a2 a3 s1 a4 a5 a6 s2 a7 a8 a9 s3 l1 l2 l3 l4
    where A: "A = [[a1, a2, a3, s1], [a4, a5, a6, s2], [a7, a8, a9, s3], [l1, l2, l3, l4]]"
    by blast
  with last have A': "A = [[a1, a2, a3, s1], [a4, a5, a6, s2], [a7, a8, a9, s3], [0, 0, 0, 1]]"
    by simp
  have "rotation_block A = [[a1, a2, a3], [a4, a5, a6], [a7, a8, a9]]"
    by (simp add: A rotation_block_def)
  with rot have "matmul [[a1, a2, a3], [a4, a5, a6], [a7, a8, a9]]
      (transpose [[a1, a2, a3], [a4, a5, a6], [a7, a8, a9]]) = eye 3"
    by (simp add: is_rotation_matrix_def)
  from rows_orthonormal [OF this] A' that show thesis by blast
qed

lemma shape4_explicit:
  "shape (Mat [[a11, a12, a13, a14], [a21, a22, a23, a24], [a31, a32, a33, a34],
     [a41, a42, a43, a44]]) = [4, 4] \<and>
   rectangular [[a11, a12, a13, a14], [a21, a22, a23, a24], [a31, a32, a33, a34],
     [a41, a42, a43, a44]]"
  by (simp add: rectangular_def)

lemma shape_matmul4:
  assumes "shape (Mat X) = [4, 4]" "rectangular X" "shape (Mat Y) = [4, 4]" "rectangular Y"
  shows "shape (Mat (matmul X Y)) = [4, 4] \<and> rectangular (matmul X Y)"
proof -
  from mat4_explicit [OF assms(1,2)] obtain x11 x12 x13 x14 x21 x22 x23 x24 x31 x32 x33 x34
      x41 x42 x43 x44 where X: "X = [[x11, x12, x13, x14], [x21, x22, x23, x24],
        [x31, x32, x33, x34], [x41, x42, x43, x44]]" by blast
  from mat4_explicit [OF assms(3,4)] obtain y11 y12 y13 y14 y21 y22 y23 y24 y31 y32 y33 y34
      y41 y42 y43 y44 where Y: "Y = [[y11, y12, y13, y14], [y21, y22, y23, y24],
        [y31, y32, y33, y34], [y41, y42, y43, y44]]" by blast
  show ?thesis
    unfolding X Y matmul4 by (rule shape4_explicit)
qed

text \<open>The inverse computed for a homogeneous transform is a two-sided inverse.\<close>

lemma invert_transform_inverse:
  assumes "is_transform A"
  shows "\<exists>Ai. invert_transform (Mat A) = Inr Ai \<and> shape (Mat Ai) = [4, 4] \<and> rectangular Ai \<and>
     matmul Ai A = eye 4 \<and> matmul A Ai = eye 4"
proof -
  from assms obtain a b c d e f g h i x y z where
    A: "A = [[a, b, c, x], [d, e, f, y], [g, h, i, z], [0, 0, 0, 1]]"
    and rows: "a * a + b * b + c * c = 1" "a * d + b * e + c * f = 0"
    "a * g + b * h + c * i = 0" "d * d + e * e + f * f = 1"
    "d * g + e * h + f * i = 0" "g * g + h * h + i * i = 1"
    by (rule is_transform_explicit)
  note cols = columns_orthonormal [OF rows]
  let ?Ai = "[[a, d, g, - (a * x + d * y + g * z)],
          [b, e, h, - (b * x + e * y + h * z)],
          [c, f, i, - (c * x + f * y + i * z)],
          [0, 0, 0, 1]]"
  have "invert_transform (Mat A) = Inr ?Ai"
    unfolding A by (rule invert_explicit)
  moreover have "shape (Mat ?Ai) = [4, 4] \<and> rectangular ?Ai"
    by (rule shape4_explicit)
  moreover have "matmul ?Ai A = eye 4"
    unfolding A using cols by (rule inverse_left)
  moreover have "matmul A ?Ai = eye 4"
    unfolding A using rows by (rule inverse_right)
  ultimately show ?thesis by blast
qed

lemma invert_transform_concat:
  assumes "is_transform A" "is_transform B"
    and "invert_transform (Mat A) = Inr Ai" "invert_transform (Mat B) = Inr Bi"
  shows "invert_transform (Mat (matmul B A)) = Inr (matmul Ai Bi)"
proof -
  from assms(1) obtain a1 a2 a3 a4 a5 a6 a7 a8 a9 s1 s2 s3 where
    A: "A = [[a1, a2, a3, s1], [a4, a5, a6, s2], [a7, a8, a9, s3], [0, 0, 0, 1]]"
    by (rule is_transform_explicit)
  from assms(2) obtain b1 b2 b3 b4 b5 b6 b7 b8 b9 t1 t2 t3 where
    B: "B = [[b1, b2, b3, t1], [b4, b5, b6, t2], [b7, b8, b9, t3], [0, 0, 0, 1]]"
    and rows: "b1 * b1 + b2 * b2 + b3 * b3 = 1" "b1 * b4 + b2 * b5 + b3 * b6 = 0"
    "b1 * b7 + b2 * b8 + b3 * b9 = 0" "b4 * b4 + b5 * b5 + b6 * b6 = 1"
    "b4 * b7 + b5 * b8 + b6 * b9 = 0" "b7 * b7 + b8 * b8 + b9 * b9 = 1"
    by (rule is_transform_explicit)
  note cols = columns_orthonormal [OF rows]
  from assms(3) have Ai: "Ai = [[a1, a4, a7, - (a1 * s1 + a4 * s2 + a7 * s3)],
            [a2, a5, a8, - (a2 * s1 + a5 * s2 + a8 * s3)],
            [a3, a6, a9, - (a3 * s1 + a6 * s2 + a9 * s3)],
            [0, 0, 0, 1]]"
    unfolding A invert_explicit by simp
  from assms(4) have Bi: "Bi = [[b1, b4, b7, - (b1 * t1 + b4 * t2 + b7 * t3)],
            [b2, b5, b8, - (b2 * t1 + b5 * t2 + b8 * t3)],
            [b3, b6, b9, - (b3 * t1 + b6 * t2 + b9 * t3)],
            [0, 0, 0, 1]]"
    unfolding B invert_explicit by simp
  show ?thesis
    unfolding A B Ai Bi using cols by (rule inverse_of_product)
qed

lemma is_transform_shape:
  "is_transform A \<Longrightarrow> shape (Mat A) = [4, 4] \<and> rectangular A"
  by (simp add: is_transform_def)

lemma transform_point:
  assumes "shape (Mat A) = [4, 4]" "length p = 4"
  shows "transform A (Vec p) = Inr (Vec (matvec A p)) \<and> length (matvec A p) = 4"
  using assms by (simp add: transform_def length_matvec)

lemma matmul_assoc4:
  assumes "shape (Mat X) = [4, 4]" "rectangular X" "shape (Mat Y) = [4, 4]" "rectangular Y"
    and "shape (Mat Z) = [4, 4]" "rectangular Z"
  shows "matmul (matmul X Y) Z = matmul X (matmul Y Z)"
proof -
  from mat4_explicit [OF assms(1,2)] obtain x11 x12 x13 x14 x21 x22 x23 x24 x31 x32 x33 x34
      x41 x42 x43 x44 where X: "X = [[x11, x12, x13, x14], [x21, x22, x23, x24],
        [x31, x32, x33, x34], [x41, x42, x43, x44]]" by blast
  from mat4_explicit [OF assms(3,4)] obtain y11 y12 y13 y14 y21 y22 y23 y24 y31 y32 y33 y34
      y41 y42 y43 y44 where Y: "Y = [[y11, y12, y13, y14], [y21, y22, y23, y24],
        [y31, y32, y33, y34], [y41, y42, y43, y44]]" by blast
  from mat4_explicit [OF assms(5,6)] obtain z11 z12 z13 z14 z21 z22 z23 z24 z31 z32 z33 z34
      z41 z42 z43 z44 where Z: "Z = [[z11, z12, z13, z14], [z21, z22, z23, z24],
        [z31, z32, z33, z34], [z41, z42, z43, z44]]" by blast
  show ?thesis
    unfolding X Y Z matmul4 by (simp add: algebra_simps)
qed

lemma matmul_eye4_left:
  assumes "shape (Mat X) = [4, 4]" "rectangular X"
  shows "matmul (eye 4) X = X"
proof -
  from mat4_explicit [OF assms(1,2)] obtain x11 x12 x13 x14 x21 x22 x23 x24 x31 x32 x33 x34
      x41 x42 x43 x44 where X: "X = [[x11, x12, x13, x14], [x21, x22, x23, x24],
        [x31, x32, x33, x34], [x41, x42, x43, x44]]" by blast
  show ?thesis unfolding X eye4 matmul4 by simp
qed

lemma matmul_eye4_right:
  assumes "shape (Mat X) = [4, 4]" "rectangular X"
  shows "matmul X (eye 4) = X"
proof -
  from mat4_explicit [OF assms(1,2)] obtain x11 x12 x13 x14 x21 x22 x23 x24 x31 x32 x33 x34
      x41 x42 x43 x44 where X: "X = [[x11, x12, x13, x14], [x21, x22, x23, x24],
        [x31, x32, x33, x34], [x41, x42, x43, x44]]" by blast
  show ?thesis unfolding X eye4 matmul4 by simp
qed

text \<open>A left inverse and a right inverse of a 4x4 matrix coincide.\<close>

lemma inverse_unique4:
  assumes T: "shape (Mat T) = [4, 4]" "rectangular T"
    and B: "shape (Mat B) = [4, 4]" "rectangular B"
    and C: "shape (Mat C) = [4, 4]" "rectangular C"
    and "matmul B T = eye 4" "matmul T C = eye 4"
  shows "C = B"
proof -
  have "C = matmul (eye 4) C" using C by (simp add: matmul_eye4_left)
  also have "\<dots> = matmul (matmul B T) C" by (simp add: assms(7))
  also have "\<dots> = matmul B (matmul T C)" using B T C by (rule matmul_assoc4)
  also have "\<dots> = B" using B by (simp add: assms(8) matmul_eye4_right)
  finally show ?thesis .
qed

section \<open>Inversion of a transform\<close>

text \<open>
  Claim C1. For a rotation matrix \<open>R\<close> and a 3-vector \<open>p\<close>,
  \<open>invert_transform(transform_from(R, p))\<close> succeeds; its result has rotation block
  \<open>R\<^sup>T\<close> and translation \<open>- R\<^sup>T p\<close>, it is a left and a right inverse of
  \<open>transform_from(R, p)\<close>, and it is the only 4x4 matrix \<open>C\<close> with
  \<open>transform_from(R, p) C = I\<close>.
\<close>

theorem invert_transform_is_inverse:
  assumes "is_rotation_matrix R" "length p = 3"
  shows "\<exists>B. invert_transform (Mat (transform_from R p)) = Inr B \<and>
     B = transform_from (transpose R) (neg (matvec (transpose R) p)) \<and>
     matmul B (transform_from R p) = eye 4 \<and> matmul (transform_from R p) B = eye 4 \<and>
     (\<forall>C. shape (Mat C) = [4, 4] \<and> rectangular C \<and> matmul (transform_from R p) C = eye 4
        \<longrightarrow> C = B)"
proof -
  from assms(1) have sh: "shape (Mat R) = [3, 3]" "rectangular R"
    and orth: "matmul R (transpose R) = eye 3"
    by (simp_all add: is_rotation_matrix_def)
  from mat3_explicit [OF sh] obtain a b c d e f g h i
    where R: "R = [[a, b, c], [d, e, f], [g, h, i]]" by blast
  from list3 [OF assms(2)] obtain x y z where p: "p = [x, y, z]" by blast
  note rows = rows_orthonormal [OF orth [unfolded R]]
  note cols = columns_orthonormal [OF rows]
  let ?B = "[[a, d, g, - (a * x + d * y + g * z)],
          [b, e, h, - (b * x + e * y + h * z)],
          [c, f, i, - (c * x + f * y + i * z)],
          [0, 0, 0, 1]]"
  have T: "transform_from R p = [[a, b, c, x], [d, e, f, y], [g, h, i, z], [0, 0, 0, 1]]"
    unfolding R p by (rule transform_from_explicit)
  have 1: "invert_transform (Mat (transform_from R p)) = Inr ?B"
    unfolding T by (rule invert_explicit)
  have 2: "?B = transform_from (transpose R) (neg (matvec (transpose R) p))"
    unfolding R p by (simp add: transform_from_def matvec_def dot_def neg_def)
  have 3: "matmul ?B (transform_from R p) = eye 4"
    unfolding T using cols by (rule inverse_left)
  have 4: "matmul (transform_from R p) ?B = eye 4"
    unfolding T using rows by (rule inverse_right)
  have shT: "shape (Mat (transform_from R p)) = [4, 4]" "rectangular (transform_from R p)"
    unfolding T using shape4_explicit by blast+
  have shB: "shape (Mat ?B) = [4, 4]" "rectangular ?B"
    using shape4_explicit by blast+
  have 5: "\<forall>C. shape (Mat C) = [4, 4] \<and> rectangular C \<and>
      matmul (transform_from R p) C = eye 4 \<longrightarrow> C = ?B"
    using inverse_unique4 [OF shT shB _ _ 3] by blast
  from 1 2 3 4 5 show ?thesis by blast
qed

lemma quarter_turn_rotation: "is_rotation_matrix [[0, - 1, 0], [1, 0, 0], [0, 0, 1]]"
  by (simp add: is_rotation_matrix_def rectangular_def matmul_def dot_def eye_def upt_rec det3)

theorem invert_transform_is_inverse_witness:
  "is_rotation_matrix [[0, - 1, 0], [1, 0, 0], [0, 0, 1]] \<and> length [1, 2, 3 :: real] = 3 \<and>
   invert_transform (Mat (transform_from [[0, - 1, 0], [1, 0, 0], [0, 0, 1]] [1, 2, 3])) =
     Inr [[0, 1, 0, - 2], [- 1, 0, 0, 1], [0, 0, 1, - 3], [0, 0, 0, 1]] \<and>
   matmul [[0, 1, 0, - 2], [- 1, 0, 0, 1], [0, 0, 1, - 3], [0, 0, 0, 1]]
     (transform_from [[0, - 1, 0], [1, 0, 0], [0, 0, 1]] [1, 2, 3]) = eye 4 \<and>
   matmul (transform_from [[0, - 1, 0], [1, 0, 0], [0, 0, 1]] [1, 2, 3])
     [[0, 1, 0, - 2], [- 1, 0, 0, 1], [0, 0, 1, - 3], [0, 0, 0, 1]] = eye 4"
proof -
  have len: "length [1, 2, 3 :: real] = 3" by simp
  from invert_transform_is_inverse [OF quarter_turn_rotation len] obtain B where
    B: "invert_transform (Mat (transform_from [[0, - 1, 0], [1, 0, 0], [0, 0, 1]] [1, 2, 3])) = Inr B"
    "B = transform_from (transpose [[0, - 1, 0], [1, 0, 0], [0, 0, 1]])
           (neg (matvec (transpose [[0, - 1, 0], [1, 0, 0], [0, 0, 1]]) [1, 2, 3]))"
    "matmul B (transform_from [[0, - 1, 0], [1, 0, 0], [0, 0, 1]] [1, 2, 3]) = eye 4"
    "matmul (transform_from [[0, - 1, 0], [1, 0, 0], [0, 0, 1]] [1, 2, 3]) B = eye 4"
    by blast
  from B(2) have "B = [[0, 1, 0, - 2], [- 1, 0, 0, 1], [0, 0, 1, - 3], [0, 0, 0, 1]]"
    by (simp add: transform_from_def matvec_def dot_def neg_def)
  with B(1,3,4) quarter_turn_rotation len show ?thesis by blast
qed

section \<open>Composition of transforms\<close>

text \<open>
  Claim C2. For homogeneous transforms \<open>A2B\<close> and \<open>B2C\<close> and a homogeneous point
  \<open>p\<close>: transforming \<open>p\<close> with \<open>concat(A2B, B2C)\<close> gives what transforming with
  \<open>A2B\<close> and then with \<open>B2C\<close> gives; the inverse of \<open>concat(A2B, B2C)\<close> is
  \<open>concat(invert_transform(B2C), invert_transform(A2B))\<close>; and applying it to the
  transformed point returns \<open>p\<close>.
\<close>

theorem concat_transforms_compose_and_invert:
  assumes "is_transform A2B" "is_transform B2C" "length p = 4"
  shows "\<exists>q r Ai Bi.
     transform A2B (Vec p) = Inr q \<and> transform B2C q = Inr r \<and>
     transform (concat_transforms A2B B2C) (Vec p) = Inr r \<and>
     invert_transform (Mat A2B) = Inr Ai \<and> invert_transform (Mat B2C) = Inr Bi \<and>
     invert_transform (Mat (concat_transforms A2B B2C)) = Inr (concat_transforms Bi Ai) \<and>
     transform (concat_transforms Bi Ai) r = Inr (Vec p)"
proof -
  note shA = is_transform_shape [OF assms(1)] and shB = is_transform_shape [OF assms(2)]
  from invert_transform_inverse [OF assms(1)] obtain Ai where
    Ai: "invert_transform (Mat A2B) = Inr Ai" and shAi: "shape (Mat Ai) = [4, 4]" "rectangular Ai"
    and AiA: "matmul Ai A2B = eye 4" by blast
  from invert_transform_inverse [OF assms(2)] obtain Bi where
    Bi: "invert_transform (Mat B2C) = Inr Bi" and shBi: "shape (Mat Bi) = [4, 4]" "rectangular Bi"
    and BiB: "matmul Bi B2C = eye 4" by blast
  let ?q = "matvec A2B p" and ?r = "matvec B2C (matvec A2B p)"
  have q: "transform A2B (Vec p) = Inr (Vec ?q)" and lq: "length ?q = 4"
    using transform_point [of A2B p] shA assms(3) by simp_all
  have r: "transform B2C (Vec ?q) = Inr (Vec ?r)" and lr: "length ?r = 4"
    using transform_point [of B2C ?q] shB lq by simp_all
  have shC: "shape (Mat (matmul B2C A2B)) = [4, 4]"
    using shape_matmul4 [of B2C A2B] shA shB by simp
  have "matvec (matmul B2C A2B) p = ?r"
    using matvec_matmul [of B2C A2B p] shA shB assms(3) by simp
  with transform_point [OF shC assms(3)]
  have c: "transform (concat_transforms A2B B2C) (Vec p) = Inr (Vec ?r)"
    by (simp add: concat_transforms_def)
  have inv: "invert_transform (Mat (concat_transforms A2B B2C)) = Inr (concat_transforms Bi Ai)"
    unfolding concat_transforms_def using assms(1,2) Ai Bi by (rule invert_transform_concat)
  have shD: "shape (Mat (matmul Ai Bi)) = [4, 4]"
    using shape_matmul4 [of Ai Bi] shAi shBi by simp
  have s1: "matvec (matmul Ai Bi) ?r = matvec Ai (matvec Bi ?r)"
    using matvec_matmul [of Ai Bi ?r] shAi shBi lr by simp
  have "matvec Bi ?r = matvec (matmul Bi B2C) ?q"
    using matvec_matmul [of Bi B2C ?q] shBi shB lq by simp
  then have s2: "matvec Bi ?r = ?q"
    by (simp add: BiB matvec_eye4 lq)
  have "matvec Ai ?q = matvec (matmul Ai A2B) p"
    using matvec_matmul [of Ai A2B p] shAi shA assms(3) by simp
  then have s3: "matvec Ai ?q = p"
    by (simp add: AiA matvec_eye4 assms(3))
  have "matvec (matmul Ai Bi) ?r = p"
    by (simp only: s1 s2 s3)
  with transform_point [OF shD lr]
  have rec: "transform (concat_transforms Bi Ai) (Vec ?r) = Inr (Vec p)"
    by (simp add: concat_transforms_def)
  from q r c Ai Bi inv rec show ?thesis by blast
qed

lemma example_transforms:
  "is_transform [[0, - 1, 0, 1], [1, 0, 0, 2], [0, 0, 1, 3], [0, 0, 0, 1]]"
  "is_transform [[1, 0, 0, 1], [0, 1, 0, 0], [0, 0, 1, 0], [0, 0, 0, 1]]"
  by (simp_all add: is_transform_def is_rotation_matrix_def rotation_block_def rectangular_def
      matmul_def dot_def eye_def upt_rec det3)

theorem concat_transforms_compose_and_invert_witness:
  "is_transform [[0, - 1, 0, 1], [1, 0, 0, 2], [0, 0, 1, 3], [0, 0, 0, 1]] \<and>
   is_transform [[1, 0, 0, 1], [0, 1, 0, 0], [0, 0, 1, 0], [0, 0, 0, 1]] \<and>
   length [1, 1, 1, 1 :: real] = 4 \<and>
   (\<exists>q r Ai Bi.
     transform [[0, - 1, 0, 1], [1, 0, 0, 2], [0, 0, 1, 3], [0, 0, 0, 1]] (Vec [1, 1, 1, 1]) =
       Inr q \<and>
     transform [[1, 0, 0, 1], [0, 1, 0, 0], [0, 0, 1, 0], [0, 0, 0, 1]] q = Inr r \<and>
     r = Vec [1, 3, 4, 1] \<and>
     transform (concat_transforms [[0, - 1, 0, 1], [1, 0, 0, 2], [0, 0, 1, 3], [0, 0, 0, 1]]
        [[1, 0, 0, 1], [0, 1, 0, 0], [0, 0, 1, 0], [0, 0, 0, 1]]) (Vec [1, 1, 1, 1]) = Inr r \<and>
     invert_transform (Mat [[0, - 1, 0, 1], [1, 0, 0, 2], [0, 0, 1, 3], [0, 0, 0, 1]]) = Inr Ai \<and>
     invert_transform (Mat [[1, 0, 0, 1], [0, 1, 0, 0], [0, 0, 1, 0], [0, 0, 0, 1]]) = Inr Bi \<and>
     invert_transform (Mat (concat_transforms
        [[0, - 1, 0, 1], [1, 0, 0, 2], [0, 0, 1, 3], [0, 0, 0, 1]]
        [[1, 0, 0, 1], [0, 1, 0, 0], [0, 0, 1, 0], [0, 0, 0, 1]])) =
       Inr (concat_transforms Bi Ai) \<and>
     transform (concat_transforms Bi Ai) r = Inr (Vec [1, 1, 1, 1]))"
proof -
  have len: "length [1, 1, 1, 1 :: real] = 4" by simp
  from concat_transforms_compose_and_invert [OF example_transforms len]
  obtain q r Ai Bi where
    f: "transform [[0, - 1, 0, 1], [1, 0, 0, 2], [0, 0, 1, 3], [0, 0, 0, 1]] (Vec [1, 1, 1, 1]) =
       Inr q"
     "transform [[1, 0, 0, 1], [0, 1, 0, 0], [0, 0, 1, 0], [0, 0, 0, 1]] q = Inr r"
     "transform (concat_transforms [[0, - 1, 0, 1], [1, 0, 0, 2], [0, 0, 1, 3], [0, 0, 0, 1]]
        [[1, 0, 0, 1], [0, 1, 0, 0], [0, 0, 1, 0], [0, 0, 0, 1]]) (Vec [1, 1, 1, 1]) = Inr r"
     "invert_transform (Mat [[0, - 1, 0, 1], [1, 0, 0, 2], [0, 0, 1, 3], [0, 0, 0, 1]]) = Inr Ai"
     "invert_transform (Mat [[1, 0, 0, 1], [0, 1, 0, 0], [0, 0, 1, 0], [0, 0, 0, 1]]) = Inr Bi"
     "invert_transform (Mat (concat_transforms
        [[0, - 1, 0, 1], [1, 0, 0, 2], [0, 0, 1, 3], [0, 0, 0, 1]]
        [[1, 0, 0, 1], [0, 1, 0, 0], [0, 0, 1, 0], [0, 0, 0, 1]])) =
       Inr (concat_transforms Bi Ai)"
     "transform (concat_transforms Bi Ai) r = Inr (Vec [1, 1, 1, 1])"
    by blast
  from f(3) have "r = Vec [1, 3, 4, 1]"
    by (simp add: concat_transforms_def matmul4 transform_def matvec4)
  with f example_transforms len show ?thesis by blast
qed

end
